theory Spec2Isabelle
  imports Main "HOL-Library.AList"
begin

section \<open>Python values, exceptions and containers\<close>

text \<open>
  The exceptions the two modules can raise. \<open>ValueError\<close> carries the message the source
  gives it; \<open>TypeError\<close> carries the interpreter's message.
\<close>

datatype error = ValueError string | IndexError | KeyError | TypeError string

text \<open>
  The Python values \<open>replace_conllu_info\<close> receives as arguments and stores in the fields
  of a \<open>ConlluInfo\<close>: \<open>None\<close>, booleans, integers and strings.
\<close>

datatype pyval = PyNone | PyBool bool | PyInt int | PyStr string

text \<open>Python's truth value of an object: \<open>None\<close>, \<open>False\<close>, \<open>0\<close> and \<open>''\<close> are falsy.\<close>

fun truthy :: "pyval \<Rightarrow> bool" where
  "truthy PyNone = False"
| "truthy (PyBool b) = b"
| "truthy (PyInt i) = (i \<noteq> 0)"
| "truthy (PyStr s) = (s \<noteq> [])"

text \<open>\<open>xs[i]\<close> on a list: a negative index counts from the end, out of range raises.\<close>

definition py_getitem :: "'a list \<Rightarrow> int \<Rightarrow> error + 'a" where
  "py_getitem xs i =
     (if 0 \<le> i \<and> i < int (length xs) then Inr (xs ! nat i)
      else if i < 0 \<and> - int (length xs) \<le> i then Inr (xs ! nat (int (length xs) + i))
      else Inl IndexError)"

text \<open>
  \<open>xs[i] = v\<close> with \<open>i\<close> a loop counter from \<open>enumerate\<close> or \<open>range\<close> (never negative):
  assignment to an index the list does not have raises \<open>IndexError\<close>; it never extends
  the list.
\<close>

definition py_setitem :: "'a list \<Rightarrow> nat \<Rightarrow> 'a \<Rightarrow> error + 'a list" where
  "py_setitem xs i v = (if i < length xs then Inr (xs[i := v]) else Inl IndexError)"

text \<open>\<open>d[k]\<close> on a plain \<open>dict\<close>, kept as an association list in insertion order.\<close>

definition dict_getitem :: "('k \<times> 'v) list \<Rightarrow> 'k \<Rightarrow> error + 'v" where
  "dict_getitem d k = (case map_of d k of None \<Rightarrow> Inl KeyError | Some v \<Rightarrow> Inr v)"

text \<open>\<open>d.pop(k)\<close> with no default: a missing key raises \<open>KeyError\<close>.\<close>

definition dict_pop :: "('k \<times> 'v) list \<Rightarrow> 'k \<Rightarrow> error + ('k \<times> 'v) list" where
  "dict_pop d k = (case map_of d k of None \<Rightarrow> Inl KeyError | Some v \<Rightarrow> Inr (AList.delete k d))"

text \<open>
  \<open>d.get(k, default=x)\<close>: \<open>dict.get\<close> takes its arguments by position only, so the call
  raises \<open>TypeError\<close> before any lookup, for every dictionary (a \<open>defaultdict\<close> too) and
  every key.
\<close>

definition dict_get_default_kw :: "('k \<times> 'v) list \<Rightarrow> 'k \<Rightarrow> 'v \<Rightarrow> error + 'v" where
  "dict_get_default_kw d k dflt = Inl (TypeError ''dict.get() takes no keyword arguments'')"

text \<open>\<open>d.get(k, x)\<close>, the positional call.\<close>

definition dict_get :: "('k \<times> 'v) list \<Rightarrow> 'k \<Rightarrow> 'v \<Rightarrow> 'v" where
  "dict_get d k dflt = (case map_of d k of None \<Rightarrow> dflt | Some v \<Rightarrow> v)"

text \<open>\<open>d[k].append(v)\<close> and \<open>d[k].extend(vs)\<close> on a \<open>defaultdict(list)\<close>.\<close>

definition dd_extend :: "('k \<times> 'v list) list \<Rightarrow> 'k \<Rightarrow> 'v list \<Rightarrow> ('k \<times> 'v list) list" where
  "dd_extend d k vs = AList.update k (dict_get d k [] @ vs) d"

definition dd_append :: "('k \<times> 'v list) list \<Rightarrow> 'k \<Rightarrow> 'v \<Rightarrow> ('k \<times> 'v list) list" where
  "dd_append d k v = dd_extend d k [v]"

text \<open>\<open>d[k].update(s)\<close> on a \<open>defaultdict(set)\<close>.\<close>

definition dd_update :: "('k \<times> 'v set) list \<Rightarrow> 'k \<Rightarrow> 'v set \<Rightarrow> ('k \<times> 'v set) list" where
  "dd_update d k s = AList.update k (dict_get d k {} \<union> s) d"

section \<open>conllu\_wrapper.py\<close>

text \<open>
  \<open>ConlluInfo\<close> is a named tuple of ten fields; a node is a dictionary whose entry
  \<open>conllu_info\<close> holds one, beside entries the function never touches (the record's
  extension).
\<close>

record ConlluInfo =
  ci_id :: pyval
  ci_form :: pyval
  ci_lemma :: pyval
  ci_upos :: pyval
  ci_xpos :: pyval
  ci_feats :: pyval
  ci_head :: pyval
  ci_deprel :: pyval
  ci_deps :: pyval
  ci_misc :: pyval

record node =
  conllu_info :: ConlluInfo

text \<open>\<open>old if not arg else arg\<close>, the expression the source writes for each field.\<close>

definition keep_unless :: "pyval \<Rightarrow> pyval \<Rightarrow> pyval" where
  "keep_unless old arg = (if \<not> truthy arg then old else arg)"

definition replace_conllu_info ::
  "'a node_scheme \<Rightarrow> pyval \<Rightarrow> pyval \<Rightarrow> pyval \<Rightarrow> pyval \<Rightarrow> pyval \<Rightarrow> pyval \<Rightarrow> pyval \<Rightarrow> pyval
     \<Rightarrow> pyval \<Rightarrow> pyval \<Rightarrow> 'a node_scheme" where
  "replace_conllu_info nd new_id form lemma_arg upos xpos feats head deprel deps misc =
     nd\<lparr>conllu_info := \<lparr>
       ci_id = keep_unless (ci_id (conllu_info nd)) new_id,
       ci_form = keep_unless (ci_form (conllu_info nd)) form,
       ci_lemma = keep_unless (ci_lemma (conllu_info nd)) lemma_arg,
       ci_upos = keep_unless (ci_upos (conllu_info nd)) upos,
       ci_xpos = keep_unless (ci_xpos (conllu_info nd)) xpos,
       ci_feats = keep_unless (ci_feats (conllu_info nd)) feats,
       ci_head = keep_unless (ci_head (conllu_info nd)) head,
       ci_deprel = keep_unless (ci_deprel (conllu_info nd)) deprel,
       ci_deps = keep_unless (ci_deps (conllu_info nd)) deps,
       ci_misc = keep_unless (ci_misc (conllu_info nd)) misc\<rparr>\<rparr>"

section \<open>The constraint model\<close>

text \<open>
  Modelled from the spec: the module \<open>constraints\<close>, which new\_matcher.py imports, is
  not among the sources. The types below have the fields the matcher reads
  (\<open>token.id\<close>, \<open>token.capture\<close>, \<open>edge.child\<close>, \<open>distance.token1\<close>, ...), arranged as
  the spec's data model describes a pattern (a \<open>Full\<close> constraint): token specs, edge
  constraints, distance constraints in the two kinds exact and up-to, and phrase
  constraints over two or three variables.

  A label constraint is an object of the missing class \<open>Label\<close>; the matcher only calls
  its method \<open>satisfied\<close>. The type of these objects is the parameter \<open>'l\<close>, and the
  method is a parameter \<open>satisfied\<close> of every function that reaches it: applied to a
  constraint and the actual labels it gives the set of labels that
  \<open>successfully_matched.update\<close> adds, or the exception that escapes the call.
  An edge's \<open>label\<close> and a token's \<open>incoming_edges\<close> and \<open>outgoing_edges\<close> are
  sequences of such objects: \<open>get_matched_labels\<close> iterates over each of them.
\<close>

datatype FieldNames = WORD | LEMMA | TAG | ENTITY

text \<open>
  An accepted value of a field: a string, or the tuple of words that
  \<open>preprocess_constraint\<close> adds to a \<open>WORD\<close> field.
\<close>

datatype field_value = Str string | Words "string list"

record Field =
  field :: FieldNames
  fvalue :: "field_value list"

record 'l Token =
  token_id :: string
  spec :: "Field list"
  optional :: bool
  capture :: bool
  incoming_edges :: "'l list"
  outgoing_edges :: "'l list"

record 'l Edge =
  child :: string
  parent :: string
  label :: "'l list"

datatype Distance =
    is_ExactDistance: ExactDistance (d_token1: string) (d_token2: string) (distance: int)
  | is_UptoDistance: UptoDistance (d_token1: string) (d_token2: string) (distance: int)

datatype TokenTuple =
    is_TokenPair: TokenPair (tuple_set: "string list") (token1: string) (token2: string)
  | is_TokenTriplet: TokenTriplet (tuple_set: "string list") (token1: string) (token2: string)
      (token3: string)

record 'l Full =
  tokens :: "'l Token list"
  edges :: "'l Edge list"
  distances :: "Distance list"
  concats :: "TokenTuple list"

text \<open>
  The sentence object is the other collaborator without a class in the sources (the
  source leaves it as a TODO). The matcher reads: \<open>sentence.doc\<close>, of which only the
  \<open>id\<close> of each token is used; \<open>sentence.get_labels(child=, parent=)\<close>, with either
  keyword or both; \<open>sentence.index(id)\<close>; \<open>sentence.get_text(id)\<close>. They are fields
  here, total and free of effects.
\<close>

record Sentence =
  doc :: "int list"
  get_labels :: "int option \<Rightarrow> int option \<Rightarrow> string list"
  index :: "int \<Rightarrow> int"
  get_text :: "int \<Rightarrow> string"

section \<open>new\_matcher.py\<close>

subsection \<open>get\_matched\_labels\<close>

text \<open>
  The list comprehension calls \<open>satisfied\<close> on each constraint in order and adds what
  it returns to one set; an exception of a call ends the function.
\<close>

primrec update_all :: "('l \<Rightarrow> string list \<Rightarrow> error + string set) \<Rightarrow> 'l list \<Rightarrow> string list
    \<Rightarrow> string set \<Rightarrow> error + string set" where
  "update_all satisfied [] actual_labels successfully_matched = Inr successfully_matched"
| "update_all satisfied (c # cs) actual_labels successfully_matched =
     (case satisfied c actual_labels of
        Inl e \<Rightarrow> Inl e
      | Inr s \<Rightarrow> update_all satisfied cs actual_labels (successfully_matched \<union> s))"

definition get_matched_labels :: "('l \<Rightarrow> string list \<Rightarrow> error + string set) \<Rightarrow> 'l list
    \<Rightarrow> string list \<Rightarrow> error + string set" where
  "get_matched_labels satisfied label_constraints actual_labels =
     update_all satisfied label_constraints actual_labels {}"

subsection \<open>MatchingResult\<close>

type_synonym assignment = "(string \<times> int) list"

record MatchingResult =
  name2index :: assignment
  indices2label :: "((int \<times> int) \<times> string set) list"

subsection \<open>TokenMatcher\<close>

text \<open>
  The object \<open>__init__\<close> leaves behind: the spaCy matcher, taken as the function from the
  sentence's \<open>doc\<close> to its matches \<open>(token_name, start, end)\<close> (the name already read
  from \<open>vocab.strings\<close>); the two dictionaries from a token's id to its incoming and
  outgoing label constraints; the ids of the tokens that are not optional.
\<close>

record 'l TokenMatcher =
  matcher :: "int list \<Rightarrow> (string \<times> int \<times> int) list"
  incoming_constraints :: "(string \<times> 'l list) list"
  outgoing_constraints :: "(string \<times> 'l list) list"
  required_tokens :: "string list"

text \<open>\<open>len(get_matched_labels(constraints[name], actual)) > 0\<close>\<close>

definition some_label_matched :: "('l \<Rightarrow> string list \<Rightarrow> error + string set)
    \<Rightarrow> (string \<times> 'l list) list \<Rightarrow> string \<Rightarrow> string list \<Rightarrow> error + bool" where
  "some_label_matched satisfied constraints name actual_labels =
     (case dict_getitem constraints name of
        Inl e \<Rightarrow> Inl e
      | Inr cs \<Rightarrow>
          (case get_matched_labels satisfied cs actual_labels of
             Inl e \<Rightarrow> Inl e
           | Inr s \<Rightarrow> Inr (s \<noteq> {})))"

text \<open>The condition of the comprehension in \<open>_post_spacy_matcher\<close>; \<open>and\<close> short-circuits.\<close>

definition keep_token :: "('l \<Rightarrow> string list \<Rightarrow> error + string set) \<Rightarrow> 'l TokenMatcher
    \<Rightarrow> Sentence \<Rightarrow> string \<Rightarrow> int \<Rightarrow> error + bool" where
  "keep_token satisfied tm sen name token =
     (case some_label_matched satisfied (incoming_constraints tm) name
             (get_labels sen (Some token) None) of
        Inl e \<Rightarrow> Inl e
      | Inr incoming_ok \<Rightarrow>
          if \<not> incoming_ok then Inr False
          else some_label_matched satisfied (outgoing_constraints tm) name
                 (get_labels sen None (Some token)))"

primrec filter_tokens :: "('l \<Rightarrow> string list \<Rightarrow> error + string set) \<Rightarrow> 'l TokenMatcher
    \<Rightarrow> Sentence \<Rightarrow> string \<Rightarrow> int list \<Rightarrow> error + int list" where
  "filter_tokens satisfied tm sen name [] = Inr []"
| "filter_tokens satisfied tm sen name (token # rest) =
     (case keep_token satisfied tm sen name token of
        Inl e \<Rightarrow> Inl e
      | Inr keep \<Rightarrow>
          (case filter_tokens satisfied tm sen name rest of
             Inl e \<Rightarrow> Inl e
           | Inr kept \<Rightarrow> Inr (if keep then token # kept else kept)))"

fun post_loop :: "('l \<Rightarrow> string list \<Rightarrow> error + string set) \<Rightarrow> 'l TokenMatcher \<Rightarrow> Sentence
    \<Rightarrow> (string \<times> int list) list \<Rightarrow> (string \<times> int list) list
    \<Rightarrow> error + (string \<times> int list) list" where
  "post_loop satisfied tm sen [] checked_tokens = Inr checked_tokens"
| "post_loop satisfied tm sen ((name, token_indices) # rest) checked_tokens =
     (case filter_tokens satisfied tm sen name token_indices of
        Inl e \<Rightarrow> Inl e
      | Inr kept \<Rightarrow> post_loop satisfied tm sen rest (AList.update name kept checked_tokens))"

definition post_spacy_matcher :: "('l \<Rightarrow> string list \<Rightarrow> error + string set) \<Rightarrow> 'l TokenMatcher
    \<Rightarrow> (string \<times> int list) list \<Rightarrow> Sentence \<Rightarrow> error + (string \<times> int list) list" where
  "post_spacy_matcher satisfied tm matched_tokens sen =
     post_loop satisfied tm sen matched_tokens []"

text \<open>
  The loop of \<open>apply\<close> over the spaCy matches: the span check as the source writes it
  (\<open>if end - 1 == start: raise\<close>), then \<open>sentence.doc[start]\<close> and the append to the
  \<open>defaultdict(list)\<close>.
\<close>

fun store_matches :: "int list \<Rightarrow> (string \<times> int \<times> int) list \<Rightarrow> (string \<times> int list) list
    \<Rightarrow> error + (string \<times> int list) list" where
  "store_matches d [] matched_tokens = Inr matched_tokens"
| "store_matches d ((token_name, start, stop) # rest) matched_tokens =
     (if stop - 1 = start then Inl (ValueError ''matched more than single token'')
      else
        (case py_getitem d start of
           Inl e \<Rightarrow> Inl e
         | Inr token \<Rightarrow> store_matches d rest (dd_append matched_tokens token_name token)))"

definition TokenMatcher_apply :: "('l \<Rightarrow> string list \<Rightarrow> error + string set) \<Rightarrow> 'l TokenMatcher
    \<Rightarrow> Sentence \<Rightarrow> error + (string \<times> int list) list" where
  "TokenMatcher_apply satisfied tm sen =
     (case store_matches (doc sen) (matcher tm (doc sen)) [] of
        Inl e \<Rightarrow> Inl e
      | Inr matched_tokens \<Rightarrow>
          if list_ex (\<lambda>r. r \<notin> set (map fst matched_tokens)) (required_tokens tm)
          then Inl (ValueError ''required token not matched'')
          else post_spacy_matcher satisfied tm matched_tokens sen)"

subsection \<open>GlobalMatcher\<close>

text \<open>
  \<open>captured_labels\<close> is the one attribute the matcher writes after construction: a
  \<open>defaultdict(set)\<close> keyed by (child variable, child position, parent variable, parent
  position). The functions that can write it return the matcher they leave behind.
\<close>

type_synonym label_cache = "((string \<times> int \<times> string \<times> int) \<times> string set) list"

record 'l GlobalMatcher =
  constraint :: "'l Full"
  captured_labels :: label_cache
  dont_capture_names :: "string list"

definition GlobalMatcher_init :: "'l Full \<Rightarrow> 'l GlobalMatcher" where
  "GlobalMatcher_init c =
     \<lparr>constraint = c, captured_labels = [],
      dont_capture_names = map token_id (filter (\<lambda>token. \<not> capture token) (tokens c))\<rparr>"

text \<open>
  \<open>_filter_distance_constraints\<close>: a constraint with a variable outside the match is
  skipped; otherwise the \<open>if\<close>/\<open>elif\<close>/\<open>else\<close> chain of the source, whose \<open>else\<close> branch is
  reached by every constraint that neither test rejects.
\<close>

fun distance_loop :: "Distance list \<Rightarrow> assignment \<Rightarrow> Sentence \<Rightarrow> error + bool" where
  "distance_loop [] match sen = Inr True"
| "distance_loop (d # rest) match sen =
     (case (map_of match (d_token1 d), map_of match (d_token2 d)) of
        (Some p1, Some p2) \<Rightarrow>
          (let calculated_distance = index sen p2 - index sen p1 - 1 in
           if is_ExactDistance d \<and> distance d \<noteq> calculated_distance then Inr False
           else if is_UptoDistance d \<and> distance d < calculated_distance then Inr False
           else Inl (ValueError ''Unknown Distance type''))
      | _ \<Rightarrow> distance_loop rest match sen)"

definition filter_distance_constraints :: "'l GlobalMatcher \<Rightarrow> assignment \<Rightarrow> Sentence
    \<Rightarrow> error + bool" where
  "filter_distance_constraints gm match sen = distance_loop (distances (constraint gm)) match sen"

text \<open>\<open>"_".join(words)\<close>\<close>

fun join_underscore :: "string list \<Rightarrow> string" where
  "join_underscore [] = []"
| "join_underscore [w] = w"
| "join_underscore (w # ws) = w @ CHR ''_'' # join_underscore ws"

text \<open>
  \<open>_filter_concat_constraints\<close>. With the two kinds of phrase constraint the data model
  has, the branch that raises \<open>Unknown TokenTuple type\<close> has no input.
\<close>

fun concat_loop :: "TokenTuple list \<Rightarrow> assignment \<Rightarrow> Sentence \<Rightarrow> bool" where
  "concat_loop [] match sen = True"
| "concat_loop (TokenPair phrases t1 t2 # rest) match sen =
     (case (map_of match t1, map_of match t2) of
        (Some w1, Some w2) \<Rightarrow>
          if join_underscore (map (get_text sen) [w1, w2]) \<notin> set phrases then False
          else concat_loop rest match sen
      | _ \<Rightarrow> concat_loop rest match sen)"
| "concat_loop (TokenTriplet phrases t1 t2 t3 # rest) match sen =
     (case (map_of match t1, map_of match t2, map_of match t3) of
        (Some w1, Some w2, Some w3) \<Rightarrow>
          if join_underscore (map (get_text sen) [w1, w2, w3]) \<notin> set phrases then False
          else concat_loop rest match sen
      | _ \<Rightarrow> concat_loop rest match sen)"

definition filter_concat_constraints :: "'l GlobalMatcher \<Rightarrow> assignment \<Rightarrow> Sentence \<Rightarrow> bool" where
  "filter_concat_constraints gm match sen = concat_loop (concats (constraint gm)) match sen"

text \<open>\<open>{**base_assignment, **new_assignment}\<close>\<close>

definition dict_union :: "('k \<times> 'v) list \<Rightarrow> ('k \<times> 'v) list \<Rightarrow> ('k \<times> 'v) list" where
  "dict_union base new = foldl (\<lambda>d (k, v). AList.update k v d) base new"

definition try_merge :: "assignment \<Rightarrow> assignment \<Rightarrow> assignment" where
  "try_merge base_assignment new_assignment =
     (if list_ex (\<lambda>(k, v). v \<noteq> dict_get base_assignment k v) new_assignment then []
      else dict_union base_assignment new_assignment)"

text \<open>
  The first loop of \<open>_filter_edge_constraints\<close>, innermost body first. The bare
  \<open>except\<close> turns any exception of \<open>get_matched_labels\<close> into \<open>continue\<close>. The state of
  the loop is the list \<open>edge_assignments\<close> and the matcher's \<open>captured_labels\<close>; an
  exception leaves what was written before it.
\<close>

fun parents_loop :: "('l \<Rightarrow> string list \<Rightarrow> error + string set) \<Rightarrow> Sentence \<Rightarrow> 'l Edge \<Rightarrow> nat
    \<Rightarrow> int \<Rightarrow> int list \<Rightarrow> assignment list list \<times> label_cache
    \<Rightarrow> error option \<times> assignment list list \<times> label_cache" where
  "parents_loop satisfied sen edge i c [] st = (None, st)"
| "parents_loop satisfied sen edge i c (p # rest) (edge_assignments, cache) =
     (case get_matched_labels satisfied (label edge) (get_labels sen (Some c) (Some p)) of
        Inl e \<Rightarrow> parents_loop satisfied sen edge i c rest (edge_assignments, cache)
      | Inr labels \<Rightarrow>
          (let assignment = AList.update (parent edge) p [(child edge, c)];
               cache' = dd_update cache (child edge, c, parent edge, p) labels
           in case py_getitem edge_assignments (int i) of
                Inl e \<Rightarrow> (Some e, edge_assignments, cache')
              | Inr found \<Rightarrow>
                  parents_loop satisfied sen edge i c rest
                    (edge_assignments[i := found @ [assignment]], cache')))"

fun children_loop :: "('l \<Rightarrow> string list \<Rightarrow> error + string set) \<Rightarrow> Sentence
    \<Rightarrow> (string \<times> int list) list \<Rightarrow> 'l Edge \<Rightarrow> nat \<Rightarrow> int list
    \<Rightarrow> assignment list list \<times> label_cache
    \<Rightarrow> error option \<times> assignment list list \<times> label_cache" where
  "children_loop satisfied sen matches edge i [] st = (None, st)"
| "children_loop satisfied sen matches edge i (c # rest) st =
     (case dict_getitem matches (parent edge) of
        Inl e \<Rightarrow> (Some e, st)
      | Inr parents \<Rightarrow>
          (case parents_loop satisfied sen edge i c parents st of
             (Some e, st') \<Rightarrow> (Some e, st')
           | (None, st') \<Rightarrow> children_loop satisfied sen matches edge i rest st'))"

fun edges_loop :: "('l \<Rightarrow> string list \<Rightarrow> error + string set) \<Rightarrow> Sentence
    \<Rightarrow> (string \<times> int list) list \<Rightarrow> (nat \<times> 'l Edge) list
    \<Rightarrow> assignment list list \<times> label_cache
    \<Rightarrow> error option \<times> assignment list list \<times> label_cache" where
  "edges_loop satisfied sen matches [] st = (None, st)"
| "edges_loop satisfied sen matches ((i, edge) # rest) (edge_assignments, cache) =
     (case py_setitem edge_assignments i [] of
        Inl e \<Rightarrow> (Some e, edge_assignments, cache)
      | Inr edge_assignments' \<Rightarrow>
          (case dict_getitem matches (child edge) of
             Inl e \<Rightarrow> (Some e, edge_assignments', cache)
           | Inr children \<Rightarrow>
               (case children_loop satisfied sen matches edge i children
                       (edge_assignments', cache) of
                  (Some e, st') \<Rightarrow> (Some e, st')
                | (None, st') \<Rightarrow> edges_loop satisfied sen matches rest st')))"

text \<open>
  The second loop of \<open>_filter_edge_constraints\<close>: one pass of the two inner loops, which
  keeps a merge when it is a non-empty dictionary (\<open>if just_merged\<close>), and the loop over
  \<open>range(len(self.constraint.edges))\<close> with its early \<open>return []\<close>.
\<close>

definition merge_step :: "assignment list \<Rightarrow> assignment list \<Rightarrow> assignment list" where
  "merge_step merges assignments =
     filter (\<lambda>just_merged. just_merged \<noteq> [])
       (concat (map (\<lambda>merged. map (try_merge merged) assignments) merges))"

fun merge_loop :: "nat list \<Rightarrow> assignment list list \<Rightarrow> assignment list
    \<Rightarrow> error + assignment list" where
  "merge_loop [] edge_assignments merges = Inr merges"
| "merge_loop (i # rest) edge_assignments merges =
     (case py_getitem edge_assignments (int i) of
        Inl e \<Rightarrow> Inl e
      | Inr assignments \<Rightarrow>
          (let new_merges = merge_step merges assignments in
           if new_merges = [] then Inr [] else merge_loop rest edge_assignments new_merges))"

definition filter_edge_constraints :: "('l \<Rightarrow> string list \<Rightarrow> error + string set)
    \<Rightarrow> 'l GlobalMatcher \<Rightarrow> (string \<times> int list) list \<Rightarrow> Sentence
    \<Rightarrow> (error + assignment list) \<times> 'l GlobalMatcher" where
  "filter_edge_constraints satisfied gm matches sen =
     (let es = edges (constraint gm) in
      case edges_loop satisfied sen matches (zip [0..<length es] es) ([], captured_labels gm) of
        (Some e, edge_assignments, cache) \<Rightarrow> (Inl e, gm\<lparr>captured_labels := cache\<rparr>)
      | (None, edge_assignments, cache) \<Rightarrow>
          (merge_loop [0..<length es] edge_assignments [[]], gm\<lparr>captured_labels := cache\<rparr>))"

text \<open>
  The body of the loop of \<open>apply\<close> once both filters have passed: every name of
  \<open>dont_capture_names\<close> is popped from the assignment, then the dictionary comprehension
  reads \<open>merged_assignment[k1]\<close> and, when that equals \<open>v1\<close>, \<open>merged_assignment[k2]\<close>
  for every key of \<open>captured_labels\<close>.
\<close>

fun pop_names :: "string list \<Rightarrow> assignment \<Rightarrow> error + assignment" where
  "pop_names [] merged_assignment = Inr merged_assignment"
| "pop_names (name # rest) merged_assignment =
     (case dict_pop merged_assignment name of
        Inl e \<Rightarrow> Inl e
      | Inr popped \<Rightarrow> pop_names rest popped)"

fun collect_labels :: "label_cache \<Rightarrow> assignment \<Rightarrow> ((int \<times> int) \<times> string set) list
    \<Rightarrow> error + ((int \<times> int) \<times> string set) list" where
  "collect_labels [] merged_assignment acc = Inr acc"
| "collect_labels (((k1, v1, k2, v2), labels) # rest) merged_assignment acc =
     (case dict_getitem merged_assignment k1 of
        Inl e \<Rightarrow> Inl e
      | Inr p1 \<Rightarrow>
          if p1 \<noteq> v1 then collect_labels rest merged_assignment acc
          else
            (case dict_getitem merged_assignment k2 of
               Inl e \<Rightarrow> Inl e
             | Inr p2 \<Rightarrow>
                 if p2 \<noteq> v2 then collect_labels rest merged_assignment acc
                 else collect_labels rest merged_assignment (AList.update (v1, v2) labels acc)))"

definition build_result :: "'l GlobalMatcher \<Rightarrow> assignment \<Rightarrow> error + MatchingResult" where
  "build_result gm merged_assignment =
     (case pop_names (dont_capture_names gm) merged_assignment of
        Inl e \<Rightarrow> Inl e
      | Inr kept \<Rightarrow>
          (case collect_labels (captured_labels gm) kept [] of
             Inl e \<Rightarrow> Inl e
           | Inr labels \<Rightarrow> Inr \<lparr>name2index = kept, indices2label = labels\<rparr>))"

text \<open>
  \<open>apply\<close> is a generator. Its value here is what a caller who drains it sees: the
  results yielded, in order, and the exception that ended the draining, if one did.
\<close>

type_synonym drained = "MatchingResult list \<times> error option"

fun apply_loop :: "'l GlobalMatcher \<Rightarrow> Sentence \<Rightarrow> assignment list \<Rightarrow> drained" where
  "apply_loop gm sen [] = ([], None)"
| "apply_loop gm sen (merged_assignment # rest) =
     (case filter_distance_constraints gm merged_assignment sen of
        Inl e \<Rightarrow> ([], Some e)
      | Inr distances_ok \<Rightarrow>
          if \<not> (distances_ok \<and> filter_concat_constraints gm merged_assignment sen)
          then apply_loop gm sen rest
          else
            (case build_result gm merged_assignment of
               Inl e \<Rightarrow> ([], Some e)
             | Inr result \<Rightarrow>
                 (case apply_loop gm sen rest of (results, raised) \<Rightarrow> (result # results, raised))))"

definition GlobalMatcher_apply :: "('l \<Rightarrow> string list \<Rightarrow> error + string set) \<Rightarrow> 'l GlobalMatcher
    \<Rightarrow> (string \<times> int list) list \<Rightarrow> Sentence \<Rightarrow> drained \<times> 'l GlobalMatcher" where
  "GlobalMatcher_apply satisfied gm matches sen =
     (case filter_edge_constraints satisfied gm matches sen of
        (Inl e, gm') \<Rightarrow> (([], Some e), gm')
      | (Inr merges, gm') \<Rightarrow> (apply_loop gm' sen merges, gm'))"

subsection \<open>Match\<close>

record 'l Matchers =
  token_matcher :: "'l TokenMatcher"
  global_matcher :: "'l GlobalMatcher"

record 'l Match =
  matchers :: "(string \<times> 'l Matchers) list"
  sentence :: Sentence

definition names :: "'l Match \<Rightarrow> string list" where
  "names m = map fst (matchers m)"

text \<open>
  \<open>matches_for\<close>, drained. The global matcher is an object shared with the \<open>Match\<close>, so
  the \<open>Match\<close> that the call leaves behind is returned with the outcome.
\<close>

definition matches_for :: "('l \<Rightarrow> string list \<Rightarrow> error + string set) \<Rightarrow> 'l Match \<Rightarrow> string
    \<Rightarrow> drained \<times> 'l Match" where
  "matches_for satisfied m name =
     (case dict_getitem (matchers m) name of
        Inl e \<Rightarrow> (([], Some e), m)
      | Inr ms \<Rightarrow>
          (case TokenMatcher_apply satisfied (token_matcher ms) (sentence m) of
             Inl e \<Rightarrow> (([], Some e), m)
           | Inr matches \<Rightarrow>
               (case GlobalMatcher_apply satisfied (global_matcher ms) matches (sentence m) of
                  (out, gm') \<Rightarrow>
                    (out, m\<lparr>matchers :=
                       AList.update name (ms\<lparr>global_matcher := gm'\<rparr>) (matchers m)\<rparr>))))"

subsection \<open>preprocess\_constraint\<close>

text \<open>
  The loop over the edges. The test \<open>isinstance(edge.label, HasNoLabel)\<close> needs the
  class \<open>HasNoLabel\<close> of the missing module and is the parameter \<open>has_no_label\<close>.
  \<open>outs\<close> and \<open>ins\<close> are \<open>defaultdict(list)\<close>.
\<close>

fun hoist_edges :: "('l list \<Rightarrow> bool) \<Rightarrow> 'l Edge list
    \<Rightarrow> (string \<times> 'l list) list \<times> (string \<times> 'l list) list
    \<Rightarrow> (string \<times> 'l list) list \<times> (string \<times> 'l list) list" where
  "hoist_edges has_no_label [] acc = acc"
| "hoist_edges has_no_label (edge # rest) (outs, ins) =
     (if has_no_label (label edge) then hoist_edges has_no_label rest (outs, ins)
      else hoist_edges has_no_label rest
             (dd_extend outs (child edge) (label edge), dd_extend ins (parent edge) (label edge)))"

text \<open>\<open>t.split("_")\<close>: the pieces between the separators, empty pieces included.\<close>

fun split_on :: "char \<Rightarrow> string \<Rightarrow> string list" where
  "split_on sep [] = [[]]"
| "split_on sep (c # cs) =
     (if c = sep then [] # split_on sep cs
      else (case split_on sep cs of [] \<Rightarrow> [[c]] | w # ws \<Rightarrow> (c # w) # ws))"

text \<open>
  \<open>list(zip(*rows))\<close>: the columns of the rows, as many as the shortest row has; no
  rows give no columns.
\<close>

definition zip_star :: "'a list list \<Rightarrow> 'a list list" where
  "zip_star rows =
     (if rows = [] then []
      else map (\<lambda>j. map (\<lambda>row. row ! j) rows) [0..<min_list (map length rows)])"

text \<open>
  The loop over the phrase constraints. Both kinds append \<open>zipped_concat[0]\<close> and
  \<open>zipped_concat[1]\<close>, a triplet \<open>zipped_concat[2]\<close> as well; an index the list does not
  have raises \<open>IndexError\<close>. \<open>words\<close> is a \<open>defaultdict(list)\<close> of tuples of words.
\<close>

fun concat_words :: "TokenTuple list \<Rightarrow> (string \<times> string list list) list
    \<Rightarrow> error + (string \<times> string list list) list" where
  "concat_words [] words = Inr words"
| "concat_words (c # rest) words =
     (let zipped_concat = zip_star (map (split_on CHR ''_'') (tuple_set c)) in
      case py_getitem zipped_concat 0 of
        Inl e \<Rightarrow> Inl e
      | Inr z0 \<Rightarrow>
          (case py_getitem zipped_concat 1 of
             Inl e \<Rightarrow> Inl e
           | Inr z1 \<Rightarrow>
               (let words' = dd_append (dd_append words (token1 c) z0) (token2 c) z1 in
                if is_TokenTriplet c then
                  (case py_getitem zipped_concat 2 of
                     Inl e \<Rightarrow> Inl e
                   | Inr z2 \<Rightarrow> concat_words rest (dd_append words' (token3 c) z2))
                else concat_words rest words')))"

text \<open>
  The body of the loop that rebuilds the tokens. Its first two statements call
  \<open>ins.get(token.id, default=[])\<close> and \<open>outs.get(token.id, default=[])\<close>; the third
  calls \<open>words.get(token.id, [])\<close> by position.
\<close>

definition rebuild_token :: "(string \<times> 'l list) list \<Rightarrow> (string \<times> 'l list) list
    \<Rightarrow> (string \<times> string list list) list \<Rightarrow> 'l Token \<Rightarrow> error + 'l Token" where
  "rebuild_token ins outs words token =
     (case dict_get_default_kw ins (token_id token) [] of
        Inl e \<Rightarrow> Inl e
      | Inr from_ins \<Rightarrow>
          (case dict_get_default_kw outs (token_id token) [] of
             Inl e \<Rightarrow> Inl e
           | Inr from_outs \<Rightarrow>
               (let extra = map Words (dict_get words (token_id token) []);
                    replaced = map (\<lambda>s. s\<lparr>fvalue := fvalue s @ extra\<rparr>)
                                 (filter (\<lambda>s. field s = WORD) (spec token));
                    word_fields =
                      (if length replaced = 0 \<and> token_id token \<in> set (map fst words)
                       then [\<lparr>field = WORD, fvalue = extra\<rparr>] else replaced)
                in Inr (token\<lparr>spec := filter (\<lambda>s. field s \<noteq> WORD) (spec token) @ word_fields,
                              incoming_edges := incoming_edges token @ from_ins,
                              outgoing_edges := outgoing_edges token @ from_outs\<rparr>))))"

fun rebuild_tokens :: "(string \<times> 'l list) list \<Rightarrow> (string \<times> 'l list) list
    \<Rightarrow> (string \<times> string list list) list \<Rightarrow> 'l Token list \<Rightarrow> 'l Token list
    \<Rightarrow> error + 'l Token list" where
  "rebuild_tokens ins outs words [] rebuilt = Inr rebuilt"
| "rebuild_tokens ins outs words (token # rest) rebuilt =
     (case rebuild_token ins outs words token of
        Inl e \<Rightarrow> Inl e
      | Inr token' \<Rightarrow> rebuild_tokens ins outs words rest (rebuilt @ [token']))"

definition preprocess_constraint :: "('l list \<Rightarrow> bool) \<Rightarrow> 'l Full \<Rightarrow> error + 'l Full" where
  "preprocess_constraint has_no_label c =
     (case hoist_edges has_no_label (edges c) ([], []) of
        (outs, ins) \<Rightarrow>
          (case concat_words (concats c) [] of
             Inl e \<Rightarrow> Inl e
           | Inr words \<Rightarrow>
               (case rebuild_tokens ins outs words (tokens c) [] of
                  Inl e \<Rightarrow> Inl e
                | Inr tokens' \<Rightarrow> Inr (c\<lparr>tokens := tokens'\<rparr>))))"

section \<open>The join of the specification\<close>

text \<open>
  The merge step as the specification words it, to be compared with \<open>merge_loop\<close>. Two
  assignments agree when every variable bound in both is bound to the same position.
  One join step combines every running assignment with every assignment of the next
  relation that agrees with it; the natural join takes the relations in the order
  given, from the single empty assignment.
\<close>

definition agree :: "assignment \<Rightarrow> assignment \<Rightarrow> bool" where
  "agree a b = (\<forall>k \<in> set (map fst a) \<inter> set (map fst b). map_of a k = map_of b k)"

definition join_step :: "assignment list \<Rightarrow> assignment list \<Rightarrow> assignment list" where
  "join_step running relation =
     concat (map (\<lambda>m. concat (map (\<lambda>a. if agree m a then [dict_union m a] else []) relation))
               running)"

definition natural_join :: "assignment list list \<Rightarrow> assignment list" where
  "natural_join relations = foldl join_step [[]] relations"

text \<open>
  What the first loop appends to a relation is a dictionary with one or two keys:
  never empty, and as every dictionary without a repeated key.
\<close>

definition well_formed :: "assignment \<Rightarrow> bool" where
  "well_formed a = (a \<noteq> [] \<and> distinct (map fst a))"

section \<open>Inputs for the examples\<close>

definition example_sentence :: Sentence where
  "example_sentence =
     \<lparr>doc = [0, 1, 2, 3], get_labels = (\<lambda>c p. [''nsubj'']), index = (\<lambda>i. i),
      get_text = (\<lambda>i. ''w'')\<rparr>"

definition plain_token :: "string \<Rightarrow> bool \<Rightarrow> bool \<Rightarrow> 'l Token" where
  "plain_token name is_optional is_captured =
     \<lparr>token_id = name, spec = [\<lparr>field = TAG, fvalue = [Str ''VERB'']\<rparr>],
      optional = is_optional, capture = is_captured, incoming_edges = [], outgoing_edges = []\<rparr>"

section \<open>Properties of conllu\_wrapper.py\<close>

text \<open>
  C10. After \<open>replace_conllu_info\<close>, every field of the node's \<open>ConlluInfo\<close> is the
  argument when the argument is truthy and the previous value otherwise, whatever the
  other arguments are; so an argument left at its default \<open>None\<close>, and equally an
  argument passed as \<open>0\<close>, as the empty string or as \<open>False\<close>, leaves its field as it was
  (the call \<open>head=0\<close> cannot make a node a root), and the node's other entries are
  never changed.
\<close>

theorem replace_conllu_info_frame:
  fixes nd :: "'a node_scheme"
  defines "r \<equiv> \<lambda>new_id form lemma_arg upos xpos feats head deprel deps misc.
     conllu_info (replace_conllu_info nd new_id form lemma_arg upos xpos feats head deprel deps misc)"
  shows "ci_id (r a1 a2 a3 a4 a5 a6 a7 a8 a9 a10) = (if truthy a1 then a1 else ci_id (conllu_info nd))
    \<and> ci_form (r a1 a2 a3 a4 a5 a6 a7 a8 a9 a10) = (if truthy a2 then a2 else ci_form (conllu_info nd))
    \<and> ci_lemma (r a1 a2 a3 a4 a5 a6 a7 a8 a9 a10) = (if truthy a3 then a3 else ci_lemma (conllu_info nd))
    \<and> ci_upos (r a1 a2 a3 a4 a5 a6 a7 a8 a9 a10) = (if truthy a4 then a4 else ci_upos (conllu_info nd))
    \<and> ci_xpos (r a1 a2 a3 a4 a5 a6 a7 a8 a9 a10) = (if truthy a5 then a5 else ci_xpos (conllu_info nd))
    \<and> ci_feats (r a1 a2 a3 a4 a5 a6 a7 a8 a9 a10) = (if truthy a6 then a6 else ci_feats (conllu_info nd))
    \<and> ci_head (r a1 a2 a3 a4 a5 a6 a7 a8 a9 a10) = (if truthy a7 then a7 else ci_head (conllu_info nd))
    \<and> ci_deprel (r a1 a2 a3 a4 a5 a6 a7 a8 a9 a10) = (if truthy a8 then a8 else ci_deprel (conllu_info nd))
    \<and> ci_deps (r a1 a2 a3 a4 a5 a6 a7 a8 a9 a10) = (if truthy a9 then a9 else ci_deps (conllu_info nd))
    \<and> ci_misc (r a1 a2 a3 a4 a5 a6 a7 a8 a9 a10) = (if truthy a10 then a10 else ci_misc (conllu_info nd))
    \<and> ci_head (r a1 a2 a3 a4 a5 a6 (PyInt 0) a8 a9 a10) = ci_head (conllu_info nd)
    \<and> ci_form (r a1 (PyStr []) a3 a4 a5 a6 a7 a8 a9 a10) = ci_form (conllu_info nd)
    \<and> ci_deps (r a1 a2 a3 a4 a5 a6 a7 a8 PyNone a10) = ci_deps (conllu_info nd)
    \<and> node.more (replace_conllu_info nd a1 a2 a3 a4 a5 a6 a7 a8 a9 a10) = node.more nd"
  by (simp add: r_def replace_conllu_info_def keep_unless_def)

section \<open>Properties of new\_matcher.py: the state of the global matcher\<close>

text \<open>
  The first statement of the loop over the edges assigns to index \<open>i\<close> of a list that
  is still empty. So the loop ends at its first edge with \<open>IndexError\<close>, before
  anything is written to \<open>captured_labels\<close>; with no edge it has nothing to do.
\<close>

lemma edges_loop_first:
  "edges_loop satisfied sen matches ((i, edge) # rest) ([], cache) = (Some IndexError, [], cache)"
  by (simp add: py_setitem_def)

lemma filter_edge_constraints_raises:
  assumes "edges (constraint gm) \<noteq> []"
  shows "filter_edge_constraints satisfied gm matches sen = (Inl IndexError, gm)"
proof -
  obtain e es where es: "edges (constraint gm) = e # es"
    using assms by (cases "edges (constraint gm)") auto
  have z: "zip [0..<length (e # es)] (e # es) = (0, e) # zip [1..<Suc (length es)] es"
    by (simp add: upt_conv_Cons del: upt_Suc)
  show ?thesis
    unfolding filter_edge_constraints_def Let_def es z
    by (simp add: py_setitem_def)
qed

lemma filter_edge_constraints_no_edges:
  assumes "edges (constraint gm) = []"
  shows "filter_edge_constraints satisfied gm matches sen = (Inr [[]], gm)"
  using assms by (simp add: filter_edge_constraints_def)

lemma filter_edge_constraints_state:
  "snd (filter_edge_constraints satisfied gm matches sen) = gm"
  by (cases "edges (constraint gm) = []")
     (simp_all add: filter_edge_constraints_raises filter_edge_constraints_no_edges)

lemma GlobalMatcher_apply_state:
  "snd (GlobalMatcher_apply satisfied gm matches sen) = gm"
  using filter_edge_constraints_state [of satisfied gm matches sen]
  by (auto simp: GlobalMatcher_apply_def split: prod.splits sum.splits)

lemma matches_for_state: "snd (matches_for satisfied m name) = m"
proof (cases "map_of (matchers m) name")
  case None
  then show ?thesis by (simp add: matches_for_def dict_getitem_def)
next
  case (Some ms)
  show ?thesis
  proof (cases "TokenMatcher_apply satisfied (token_matcher ms) (sentence m)")
    case (Inl e)
    with Some show ?thesis by (simp add: matches_for_def dict_getitem_def)
  next
    case (Inr matches)
    obtain out gm' where g: "GlobalMatcher_apply satisfied (global_matcher ms) matches (sentence m) = (out, gm')"
      by (cases "GlobalMatcher_apply satisfied (global_matcher ms) matches (sentence m)")
    with GlobalMatcher_apply_state [of satisfied "global_matcher ms" matches "sentence m"]
    have "gm' = global_matcher ms" by simp
    with Some Inr g show ?thesis
      by (simp add: matches_for_def dict_getitem_def AList.update_triv)
  qed
qed

text \<open>
  C9. Two calls of \<open>matches_for\<close> for the same name on the same \<open>Match\<close>, the second
  made on what the first leaves behind, are drained to the same outcome: the same
  results and the same exception, if any. The first call leaves the \<open>Match\<close> as it
  found it, the \<open>captured_labels\<close> of its global matcher included, so nothing a call
  stores reaches a later call. (The spaCy matcher, \<open>satisfied\<close> and the sentence's
  methods are functions in this model: collaborators without state.)
\<close>

theorem matches_for_repeatable:
  "fst (matches_for satisfied (snd (matches_for satisfied m name)) name)
     = fst (matches_for satisfied m name)
   \<and> snd (matches_for satisfied m name) = m"
  by (simp add: matches_for_state)

text \<open>
  A call that raises nothing: one required token without label constraints, no edge,
  and a match over two nodes. The token's candidate is dropped after the required
  check, and the one merged assignment, the empty one, becomes the only result.
\<close>

lemma matches_for_yields_empty_result:
  "fst (matches_for (\<lambda>(c::unit) actual. Inr {})
     \<lparr>matchers = [(''rule'',
        \<lparr>token_matcher =
          \<lparr>matcher = (\<lambda>d. [(''v'', 1, 3)]), incoming_constraints = [(''v'', [])],
           outgoing_constraints = [(''v'', [])], required_tokens = [''v'']\<rparr>,
         global_matcher = GlobalMatcher_init
          \<lparr>tokens = [plain_token ''v'' False True], edges = [], distances = [],
           concats = []\<rparr>\<rparr>)],
      sentence = example_sentence\<rparr> ''rule'')
   = ([\<lparr>name2index = [], indices2label = []\<rparr>], None)"
  by (simp add: matches_for_def dict_getitem_def TokenMatcher_apply_def example_sentence_def
      py_getitem_def dd_append_def dd_extend_def dict_get_def post_spacy_matcher_def
      keep_token_def some_label_matched_def get_matched_labels_def GlobalMatcher_apply_def
      filter_edge_constraints_def GlobalMatcher_init_def filter_distance_constraints_def
      filter_concat_constraints_def build_result_def plain_token_def)

section \<open>Properties of new\_matcher.py: the merge step\<close>

lemma map_of_dict_union:
  "distinct (map fst new) \<Longrightarrow> map_of (dict_union base new) = map_of base ++ map_of new"
proof (induction new arbitrary: base)
  case Nil
  then show ?case by (simp add: dict_union_def)
next
  case (Cons kv new)
  obtain k v where kv: "kv = (k, v)" by (cases kv)
  from Cons.prems kv have d: "distinct (map fst new)" and nk: "k \<notin> fst ` set new" by auto
  have "dict_union base (kv # new) = dict_union (AList.update k v base) new"
    by (simp add: dict_union_def kv)
  then have "map_of (dict_union base (kv # new)) = (map_of base)(k \<mapsto> v) ++ map_of new"
    using Cons.IH [OF d, of "AList.update k v base"] by (simp only: update_conv')
  also have "\<dots> = map_of base ++ map_of (kv # new)"
  proof (rule ext)
    fix x
    from nk have "map_of new k = None" by (simp add: map_of_eq_None_iff)
    then show "((map_of base)(k \<mapsto> v) ++ map_of new) x = (map_of base ++ map_of (kv # new)) x"
      by (auto simp: map_add_def kv split: option.splits)
  qed
  finally show ?case .
qed

lemma dict_union_nonempty: "new \<noteq> [] \<Longrightarrow> dict_union base new \<noteq> []"
proof (induction new arbitrary: base rule: rev_induct)
  case Nil
  then show ?case by simp
next
  case (snoc kv new)
  then show ?case by (cases kv) (simp add: dict_union_def)
qed

lemma conflict_iff:
  assumes "distinct (map fst new)"
  shows "list_ex (\<lambda>(k, v). v \<noteq> dict_get base k v) new \<longleftrightarrow> \<not> agree base new"
proof -
  have "(\<exists>(k, v) \<in> set new. v \<noteq> dict_get base k v)
      \<longleftrightarrow> (\<exists>k \<in> set (map fst base) \<inter> set (map fst new). map_of base k \<noteq> map_of new k)"
  proof
    assume "\<exists>(k, v) \<in> set new. v \<noteq> dict_get base k v"
    then obtain k v where kv: "(k, v) \<in> set new" and ne: "v \<noteq> dict_get base k v" by auto
    from kv assms have n: "map_of new k = Some v" by simp
    from ne obtain w where b: "map_of base k = Some w" and "w \<noteq> v"
      by (auto simp: dict_get_def split: option.splits)
    from b have "k \<in> set (map fst base)" by (metis map_of_eq_None_iff option.distinct(1) set_map)
    moreover from kv have "k \<in> set (map fst new)" by force
    ultimately have "k \<in> set (map fst base) \<inter> set (map fst new)" by simp
    moreover from b n \<open>w \<noteq> v\<close> have "map_of base k \<noteq> map_of new k" by simp
    ultimately show "\<exists>k \<in> set (map fst base) \<inter> set (map fst new). map_of base k \<noteq> map_of new k"
      by blast
  next
    assume "\<exists>k \<in> set (map fst base) \<inter> set (map fst new). map_of base k \<noteq> map_of new k"
    then obtain k where kb: "k \<in> set (map fst base)" and kn: "k \<in> set (map fst new)"
      and ne: "map_of base k \<noteq> map_of new k" by auto
    from kn obtain v where n: "map_of new k = Some v"
      by (metis map_of_eq_None_iff not_Some_eq set_map)
    from kb obtain w where b: "map_of base k = Some w"
      by (metis map_of_eq_None_iff not_Some_eq set_map)
    from n have "(k, v) \<in> set new" by (rule map_of_SomeD)
    moreover from n b ne have "v \<noteq> dict_get base k v" by (auto simp: dict_get_def)
    ultimately show "\<exists>(k, v) \<in> set new. v \<noteq> dict_get base k v" by auto
  qed
  then show ?thesis by (auto simp: list_ex_iff agree_def)
qed

lemma try_merge_agree:
  assumes "well_formed new"
  shows "try_merge base new = (if agree base new then dict_union base new else [])"
  using assms conflict_iff [of new base] by (simp add: try_merge_def well_formed_def)

lemma merge_step_join_step:
  assumes "\<forall>a \<in> set relation. well_formed a"
  shows "merge_step merges relation = join_step merges relation"
proof -
  have inner: "filter (\<lambda>j. j \<noteq> []) (map (try_merge m) rel)
      = concat (map (\<lambda>a. if agree m a then [dict_union m a] else []) rel)"
    if "\<forall>a \<in> set rel. well_formed a" for m rel
    using that
  proof (induction rel)
    case Nil
    then show ?case by simp
  next
    case (Cons a rel)
    then have "well_formed a" by simp
    then have "dict_union m a \<noteq> []" by (simp add: well_formed_def dict_union_nonempty)
    with Cons \<open>well_formed a\<close> show ?case by (simp add: try_merge_agree)
  qed
  show ?thesis
    unfolding merge_step_def join_step_def
    by (induction merges) (simp_all add: inner [OF assms])
qed

lemma join_step_Nil [simp]: "join_step [] relation = []"
  by (simp add: join_step_def)

lemma join_step_empty_relation [simp]: "join_step running [] = []"
  by (simp add: join_step_def)

lemma foldl_join_step_Nil [simp]: "foldl join_step [] relations = []"
  by (induction relations) simp_all

lemma merge_loop_from:
  assumes "\<forall>relation \<in> set relations. \<forall>a \<in> set relation. well_formed a"
  shows "i \<le> length relations \<Longrightarrow>
    merge_loop [i..<length relations] relations merges
      = Inr (foldl join_step merges (drop i relations))"
proof (induction "length relations - i" arbitrary: i merges)
  case 0
  then show ?case by simp
next
  case (Suc n)
  then have lt: "i < length relations" by simp
  then have up: "[i..<length relations] = i # [Suc i..<length relations]"
    by (simp add: upt_conv_Cons)
  from lt have get: "py_getitem relations (int i) = Inr (relations ! i)"
    by (simp add: py_getitem_def)
  from lt have dr: "drop i relations = relations ! i # drop (Suc i) relations"
    by (simp add: Cons_nth_drop_Suc)
  from lt assms have wf: "\<forall>a \<in> set (relations ! i). well_formed a"
    using nth_mem by blast
  have IH: "merge_loop [Suc i..<length relations] relations ms
      = Inr (foldl join_step ms (drop (Suc i) relations))" for ms
    using Suc.hyps(1) [of "Suc i" ms] Suc.hyps(2) lt by simp
  show ?case
    unfolding up dr
    by (simp add: get Let_def merge_step_join_step [OF wf] IH)
qed

lemma edge_assignment_well_formed:
  "well_formed (AList.update (parent edge) p [(child edge, c)])"
  by (simp add: well_formed_def)

text \<open>
  The merge loop taken alone, on relations handed to it: on per-edge relations of
  non-empty dictionaries, one relation per edge in the order of declaration, it
  returns the natural join of the relations taken in that order. \<open>_try_merge\<close> gives a
  merge that the loop keeps exactly when the two assignments agree on every variable
  bound in both, and the merge then binds what either binds; otherwise the combination
  is dropped. If a join step leaves no assignment, in particular if a relation is
  empty, the loop returns the empty list. (For a pattern with an edge the loop is never
  reached: see \<open>filter_edge_constraints_raises\<close>.)
\<close>

lemma merge_loop_is_natural_join:
  assumes "\<forall>relation \<in> set relations. \<forall>a \<in> set relation. well_formed a"
  shows "merge_loop [0..<length relations] relations [[]] = Inr (natural_join relations)
    \<and> (\<forall>relation \<in> set relations. \<forall>merged. \<forall>a \<in> set relation.
          (try_merge merged a \<noteq> [] \<longleftrightarrow> agree merged a)
          \<and> (agree merged a \<longrightarrow> map_of (try_merge merged a) = map_of merged ++ map_of a))
    \<and> (\<forall>k < length relations.
          join_step (natural_join (take k relations)) (relations ! k) = []
          \<longrightarrow> merge_loop [0..<length relations] relations [[]] = Inr [])
    \<and> ([] \<in> set relations \<longrightarrow> merge_loop [0..<length relations] relations [[]] = Inr [])"
proof -
  have loop: "merge_loop [0..<length relations] relations [[]] = Inr (natural_join relations)"
    using merge_loop_from [OF assms, of 0 "[[]]"] by (simp add: natural_join_def)
  have pair: "(try_merge merged a \<noteq> [] \<longleftrightarrow> agree merged a)
      \<and> (agree merged a \<longrightarrow> map_of (try_merge merged a) = map_of merged ++ map_of a)"
    if "relation \<in> set relations" "a \<in> set relation" for relation merged a
  proof -
    from that assms have wf: "well_formed a" by blast
    then show ?thesis
      by (simp add: try_merge_agree [OF wf] well_formed_def dict_union_nonempty map_of_dict_union)
  qed
  have step: "natural_join relations = []"
    if "k < length relations" "join_step (natural_join (take k relations)) (relations ! k) = []" for k
  proof -
    have "natural_join relations
        = foldl join_step (foldl join_step [[]] (take (Suc k) relations)) (drop (Suc k) relations)"
      unfolding natural_join_def by (metis append_take_drop_id foldl_append)
    also have "foldl join_step [[]] (take (Suc k) relations)
        = join_step (natural_join (take k relations)) (relations ! k)"
      using that(1) by (simp add: take_Suc_conv_app_nth natural_join_def)
    finally show ?thesis using that(2) by simp
  qed
  have empty: "natural_join relations = []" if "[] \<in> set relations"
  proof -
    from that obtain k where "k < length relations" "relations ! k = []"
      by (auto simp: in_set_conv_nth)
    then show ?thesis using step [of k] by simp
  qed
  show ?thesis using loop pair step empty by auto
qed

lemma merge_loop_is_natural_join_example:
  defines "R \<equiv> [[[(''c'', 1), (''p'', 3)], [(''c'', 2), (''p'', 3)], [(''c'', 2), (''p'', 4)]],
                 [[(''p'', 3), (''g'', 5)], [(''p'', 0), (''g'', 5)]]]"
  shows "list_all (list_all well_formed) R
    \<and> merge_loop [0..<length R] R [[]]
        = Inr [[(''c'', 1), (''p'', 3), (''g'', 5)], [(''c'', 2), (''p'', 3), (''g'', 5)]]"
proof -
  have wf: "\<forall>relation \<in> set R. \<forall>a \<in> set relation. well_formed a"
    by (simp add: R_def well_formed_def)
  have nj: "natural_join R
      = [[(''c'', 1), (''p'', 3), (''g'', 5)], [(''c'', 2), (''p'', 3), (''g'', 5)]]"
    by (simp add: R_def natural_join_def join_step_def agree_def dict_union_def)
  from merge_loop_is_natural_join [OF wf]
  have "merge_loop [0..<length R] R [[]] = Inr (natural_join R)"
    by (rule conjunct1)
  with nj wf show ?thesis by (simp add: list_all_iff)
qed

text \<open>
  C2. For a pattern with two edges, from \<open>c\<close> to \<open>p\<close> and from \<open>p\<close> to \<open>g\<close>, and a
  candidate map in which \<open>g\<close> has no candidate, the relation of the second edge is
  empty and the match should yield zero results. The code computes no join:
  \<open>_filter_edge_constraints\<close> raises \<open>IndexError\<close> at \<open>edge_assignments[i] = []\<close> for
  the first edge, before any relation is built or merged, and draining
  \<open>GlobalMatcher.apply\<close> ends with that exception instead of an empty sequence,
  whatever the edges' labels and \<open>satisfied\<close> are.
\<close>

theorem empty_edge_relation_raises_IndexError:
  "\<forall>satisfied ls1 ls2.
     fst (filter_edge_constraints satisfied
       (GlobalMatcher_init
          \<lparr>tokens = [plain_token ''c'' False True, plain_token ''p'' False True,
                     plain_token ''g'' False True],
           edges = [\<lparr>child = ''c'', parent = ''p'', label = ls1\<rparr>,
                    \<lparr>child = ''p'', parent = ''g'', label = ls2\<rparr>],
           distances = [], concats = []\<rparr>)
       [(''c'', [1]), (''p'', [3]), (''g'', [])] example_sentence) = Inl IndexError
   \<and> fst (GlobalMatcher_apply satisfied
       (GlobalMatcher_init
          \<lparr>tokens = [plain_token ''c'' False True, plain_token ''p'' False True,
                     plain_token ''g'' False True],
           edges = [\<lparr>child = ''c'', parent = ''p'', label = ls1\<rparr>,
                    \<lparr>child = ''p'', parent = ''g'', label = ls2\<rparr>],
           distances = [], concats = []\<rparr>)
       [(''c'', [1]), (''p'', [3]), (''g'', [])] example_sentence) = ([], Some IndexError)"
  by (simp add: GlobalMatcher_apply_def filter_edge_constraints_def GlobalMatcher_init_def
      py_setitem_def upt_conv_Cons del: upt_Suc)

section \<open>Properties of new\_matcher.py: token matching\<close>

text \<open>
  C1, as the code has it. \<open>matches_for\<close> can raise while it is drained: when the
  token-level matches are stored without an error and some required (non-optional)
  token has no match among them, \<open>TokenMatcher.apply\<close> raises
  \<open>ValueError("required token not matched")\<close>, and \<open>matches_for\<close> passes the exception
  on having yielded no result.
\<close>

theorem required_token_not_matched:
  assumes "dict_getitem (matchers m) name = Inr ms"
    and "store_matches (doc (sentence m)) (matcher (token_matcher ms) (doc (sentence m))) []
           = Inr matched_tokens"
    and "r \<in> set (required_tokens (token_matcher ms))"
    and "r \<notin> set (map fst matched_tokens)"
  shows "TokenMatcher_apply satisfied (token_matcher ms) (sentence m)
           = Inl (ValueError ''required token not matched'')
    \<and> matches_for satisfied m name = (([], Some (ValueError ''required token not matched'')), m)"
proof -
  from assms(3,4) have "list_ex (\<lambda>r. r \<notin> set (map fst matched_tokens)) (required_tokens (token_matcher ms))"
    unfolding list_ex_iff by blast
  with assms(2) have "TokenMatcher_apply satisfied (token_matcher ms) (sentence m)
           = Inl (ValueError ''required token not matched'')"
    by (simp add: TokenMatcher_apply_def)
  with assms(1) show ?thesis by (simp add: matches_for_def)
qed

theorem required_token_not_matched_witness:
  fixes satisfied :: "unit \<Rightarrow> string list \<Rightarrow> error + string set"
  defines "satisfied \<equiv> \<lambda>c actual. Inr {}"
  defines "ms \<equiv> \<lparr>token_matcher =
          \<lparr>matcher = (\<lambda>d. [(''w'', 0, 2)]),
           incoming_constraints = [(''v'', []), (''w'', [])],
           outgoing_constraints = [(''v'', []), (''w'', [])], required_tokens = [''v'']\<rparr>,
        global_matcher = GlobalMatcher_init
          \<lparr>tokens = [plain_token ''v'' False True, plain_token ''w'' True True], edges = [],
           distances = [], concats = []\<rparr>\<rparr>"
  defines "m \<equiv> \<lparr>matchers = [(''rule'', ms)], sentence = example_sentence\<rparr>"
  shows "store_matches (doc (sentence m)) (matcher (token_matcher ms) (doc (sentence m))) []
           = Inr [(''w'', [0])]
    \<and> matches_for satisfied m ''rule''
         = (([], Some (ValueError ''required token not matched'')), m)"
proof -
  have a: "dict_getitem (matchers m) ''rule'' = Inr ms"
    by (simp add: m_def dict_getitem_def)
  have b: "store_matches (doc (sentence m)) (matcher (token_matcher ms) (doc (sentence m))) []
           = Inr [(''w'', [0])]"
    by (simp add: m_def ms_def example_sentence_def py_getitem_def dd_append_def dd_extend_def
        dict_get_def)
  have c: "''v'' \<in> set (required_tokens (token_matcher ms))" by (simp add: ms_def)
  have d: "''v'' \<notin> set (map fst [(''w'', [0::int])])" by simp
  from required_token_not_matched [OF a b c d, of satisfied] b show ?thesis by simp
qed

text \<open>
  C1, as the spec states it, is false: for the pattern of one required token and a
  sentence in which the token matcher finds no match for it, draining \<open>matches_for\<close>
  ends with the \<open>ValueError\<close>, not with an empty sequence of results.
\<close>

theorem matches_for_raises_counterexample:
  "matches_for (\<lambda>(c::unit) actual. Inr {})
     \<lparr>matchers = [(''rule'',
        \<lparr>token_matcher =
          \<lparr>matcher = (\<lambda>d. []), incoming_constraints = [(''v'', [])],
           outgoing_constraints = [(''v'', [])], required_tokens = [''v'']\<rparr>,
         global_matcher = GlobalMatcher_init
          \<lparr>tokens = [plain_token ''v'' False True], edges = [], distances = [], concats = []\<rparr>\<rparr>)],
      sentence = example_sentence\<rparr> ''rule''
   = (([], Some (ValueError ''required token not matched'')),
      \<lparr>matchers = [(''rule'',
        \<lparr>token_matcher =
          \<lparr>matcher = (\<lambda>d. []), incoming_constraints = [(''v'', [])],
           outgoing_constraints = [(''v'', [])], required_tokens = [''v'']\<rparr>,
         global_matcher = GlobalMatcher_init
          \<lparr>tokens = [plain_token ''v'' False True], edges = [], distances = [], concats = []\<rparr>\<rparr>)],
      sentence = example_sentence\<rparr>)"
  by (simp add: matches_for_def dict_getitem_def TokenMatcher_apply_def)

lemma store_matches_one_token_span:
  "store_matches d ((token_name, start, start + 1) # rest) matched_tokens
     = Inl (ValueError ''matched more than single token'')"
  by simp

text \<open>
  C7. The span check of \<open>TokenMatcher.apply\<close> is the wrong way round: a match that
  covers exactly one node (\<open>end = start + 1\<close>) raises \<open>ValueError("matched more than
  single token")\<close>, here for the span from 2 to 3, and a match that covers two nodes,
  here from 1 to 3, is accepted and stored under its first node.
\<close>

theorem span_check_rejects_single_node:
  "(\<forall>satisfied. TokenMatcher_apply satisfied
      \<lparr>matcher = (\<lambda>d. [(''v'', 2, 3)]), incoming_constraints = [(''v'', [])],
       outgoing_constraints = [(''v'', [])], required_tokens = [''v'']\<rparr> example_sentence
     = Inl (ValueError ''matched more than single token''))
   \<and> store_matches (doc example_sentence) [(''v'', 2, 3)] []
       = Inl (ValueError ''matched more than single token'')
   \<and> store_matches (doc example_sentence) [(''v'', 1, 3)] [] = Inr [(''v'', [1])]"
  by (simp add: TokenMatcher_apply_def example_sentence_def py_getitem_def dd_append_def
      dd_extend_def dict_get_def)

lemma keep_token_no_incoming:
  "dict_getitem (incoming_constraints tm) name = Inr [] \<Longrightarrow>
     keep_token satisfied tm sen name token = Inr False"
  by (simp add: keep_token_def some_label_matched_def get_matched_labels_def)

lemma filter_tokens_no_incoming:
  "dict_getitem (incoming_constraints tm) name = Inr [] \<Longrightarrow>
     filter_tokens satisfied tm sen name token_indices = Inr []"
  by (induction token_indices) (simp_all add: keep_token_no_incoming)

text \<open>
  C3. A token whose lists of incoming and outgoing label constraints are both empty
  loses every candidate in \<open>_post_spacy_matcher\<close>: \<open>get_matched_labels\<close> of no
  constraint is the empty set, and the comprehension keeps a node only when the set
  has an element. Here the candidates 1 and 3 of \<open>v\<close> are both dropped, whatever
  \<open>satisfied\<close> does.
\<close>

theorem post_spacy_matcher_drops_unconstrained:
  "\<forall>satisfied. post_spacy_matcher satisfied
      \<lparr>matcher = (\<lambda>d. []), incoming_constraints = [(''v'', [])],
       outgoing_constraints = [(''v'', [])], required_tokens = [''v'']\<rparr>
      [(''v'', [1, 3])] example_sentence = Inr [(''v'', [])]"
  by (simp add: post_spacy_matcher_def keep_token_def some_label_matched_def dict_getitem_def
      get_matched_labels_def)

section \<open>Properties of new\_matcher.py: the global matcher\<close>

lemma distance_loop_skips_absent:
  "map_of match (d_token1 d) = None \<or> map_of match (d_token2 d) = None \<Longrightarrow>
     distance_loop (d # rest) match sen = distance_loop rest match sen"
  by (auto split: option.splits)

lemma distance_loop_bound_never_passes:
  "map_of match (d_token1 d) = Some p1 \<Longrightarrow> map_of match (d_token2 d) = Some p2 \<Longrightarrow>
     distance_loop (d # rest) match sen \<noteq> Inr True"
  by (simp add: Let_def)

text \<open>
  C4. A distance constraint that the assignment satisfies raises: with \<open>a\<close> at
  position 1 and \<open>b\<close> at position 2 the computed distance is 0, so neither the exact
  constraint of distance 0 nor the up-to constraint of bound 2 is rejected by its test,
  and the chain falls to its \<open>else\<close> branch, \<open>ValueError("Unknown Distance type")\<close>.
\<close>

theorem satisfied_distance_raises:
  "filter_distance_constraints
      (GlobalMatcher_init \<lparr>tokens = [plain_token ''a'' False True, plain_token ''b'' False True],
         edges = [], distances = [ExactDistance ''a'' ''b'' 0], concats = []\<rparr>)
      [(''a'', 1), (''b'', 2)] example_sentence = Inl (ValueError ''Unknown Distance type'')
   \<and> filter_distance_constraints
      (GlobalMatcher_init \<lparr>tokens = [plain_token ''a'' False True, plain_token ''b'' False True],
         edges = [], distances = [UptoDistance ''a'' ''b'' 2], concats = []\<rparr>)
      [(''a'', 1), (''b'', 2)] example_sentence = Inl (ValueError ''Unknown Distance type'')"
  by (simp add: filter_distance_constraints_def GlobalMatcher_init_def example_sentence_def)

text \<open>
  C5. For a pattern with one edge, from \<open>c\<close> to \<open>p\<close>, and one candidate for each
  variable, \<open>_filter_edge_constraints\<close> raises \<open>IndexError\<close> at
  \<open>edge_assignments[i] = []\<close>: no pair is enumerated, no assignment is recorded and no
  label set is cached, whatever the edge's labels and \<open>satisfied\<close> are.
\<close>

theorem edge_pairs_raise_IndexError:
  "\<forall>satisfied ls. filter_edge_constraints satisfied
      (GlobalMatcher_init
         \<lparr>tokens = [plain_token ''c'' False True, plain_token ''p'' False True],
          edges = [\<lparr>child = ''c'', parent = ''p'', label = ls\<rparr>], distances = [], concats = []\<rparr>)
      [(''c'', [1]), (''p'', [3])] example_sentence
    = (Inl IndexError,
       GlobalMatcher_init
         \<lparr>tokens = [plain_token ''c'' False True, plain_token ''p'' False True],
          edges = [\<lparr>child = ''c'', parent = ''p'', label = ls\<rparr>], distances = [], concats = []\<rparr>)"
  by (simp add: filter_edge_constraints_def GlobalMatcher_init_def py_setitem_def)

lemma distance_loop_empty_match: "distance_loop ds [] sen = Inr True"
  by (induction ds) simp_all

lemma concat_loop_empty_match: "concat_loop cs [] sen = True"
proof (induction cs)
  case Nil
  then show ?case by simp
next
  case (Cons c cs)
  then show ?case by (cases c) simp_all
qed

lemma dont_capture_never_yields:
  assumes "dont_capture_names gm \<noteq> []"
  shows "\<exists>e. fst (GlobalMatcher_apply satisfied gm matches sen) = ([], Some e)"
proof (cases "edges (constraint gm) = []")
  case True
  from assms obtain n ns where "dont_capture_names gm = n # ns"
    by (cases "dont_capture_names gm") auto
  then have "build_result gm [] = Inl KeyError"
    by (simp add: build_result_def dict_pop_def)
  with True show ?thesis
    by (simp add: GlobalMatcher_apply_def filter_edge_constraints_no_edges
        filter_distance_constraints_def filter_concat_constraints_def
        distance_loop_empty_match concat_loop_empty_match)
next
  case False
  then show ?thesis
    by (simp add: GlobalMatcher_apply_def filter_edge_constraints_raises)
qed

text \<open>
  C8. For a pattern of two tokens and no edge, one of the tokens marked don't-capture,
  the single merged assignment passes both filters and building its result raises
  \<open>KeyError\<close>: \<open>merged_assignment.pop(name)\<close> finds no binding of the name. No
  \<open>MatchingResult\<close> is yielded, whatever the candidates are.
\<close>

theorem build_result_raises_KeyError:
  "\<forall>satisfied matches. fst (GlobalMatcher_apply satisfied
      (GlobalMatcher_init
         \<lparr>tokens = [plain_token ''v'' False True, plain_token ''helper'' False False],
          edges = [], distances = [], concats = []\<rparr>)
      matches example_sentence) = ([], Some KeyError)"
  by (simp add: GlobalMatcher_apply_def filter_edge_constraints_def GlobalMatcher_init_def
      filter_distance_constraints_def filter_concat_constraints_def build_result_def
      dict_pop_def plain_token_def)

section \<open>Properties of new\_matcher.py: preprocess\_constraint\<close>

lemma rebuild_tokens_raises:
  "toks \<noteq> [] \<Longrightarrow>
     rebuild_tokens ins outs words toks acc
       = Inl (TypeError ''dict.get() takes no keyword arguments'')"
  by (cases toks) (simp_all add: rebuild_token_def dict_get_default_kw_def)

lemma preprocess_constraint_raises:
  "tokens c \<noteq> [] \<Longrightarrow> \<exists>e. preprocess_constraint has_no_label c = Inl e"
  by (auto simp: preprocess_constraint_def rebuild_tokens_raises split: prod.splits sum.splits)

text \<open>
  C6. \<open>preprocess_constraint\<close> returns no pattern for the pattern of one token and no
  other constraint: rebuilding the token calls \<open>ins.get(token.id, default=[])\<close>, and
  \<open>dict.get\<close> takes no keyword argument, so the call raises \<open>TypeError\<close>.
\<close>

theorem preprocess_constraint_raises_TypeError:
  "\<forall>has_no_label. preprocess_constraint has_no_label
      \<lparr>tokens = [plain_token ''v'' False True], edges = [], distances = [], concats = []\<rparr>
    = Inl (TypeError ''dict.get() takes no keyword arguments'')"
  by (simp add: preprocess_constraint_def rebuild_token_def dict_get_default_kw_def)

end
